theory Spec2Isabelle
  imports Main "HOL-Library.Sublist"
begin

section \<open>Python text\<close>

text \<open>
  A Python \<open>str\<close> is modelled as a \<open>string\<close>; one \<open>char\<close> stands for one code point
  (so the texts covered are those of code points below 256), \<open>s[:n]\<close> is \<open>take n s\<close>,
  \<open>a + b\<close> is \<open>a @ b\<close> and \<open>sub in s\<close> is \<open>sublist sub s\<close> (a contiguous occurrence).
\<close>

text \<open>The character of a decimal digit \<open>d < 10\<close>.\<close>

definition digit_char :: "nat \<Rightarrow> char" where
  "digit_char d = ''0123456789'' ! d"

text \<open>\<open>str(i)\<close> of a non-negative integer: its decimal digits.\<close>

function str_nat :: "nat \<Rightarrow> string" where
  "str_nat n = (if n < 10 then [digit_char n] else str_nat (n div 10) @ [digit_char (n mod 10)])"
  by pat_completeness auto
termination
  by (relation "measure id") auto

declare str_nat.simps [simp del]



text \<open>
  \<open>s.split(sep)\<close>: the pieces between the non-overlapping occurrences of \<open>sep\<close>, found
  from the left; \<open>acc\<close> holds the current piece, reversed. Python raises \<open>ValueError\<close> on an
  empty separator; the only call below passes a non-empty literal.
\<close>

function py_split_from :: "string \<Rightarrow> string \<Rightarrow> string \<Rightarrow> string list" where
  "py_split_from sep acc [] = [rev acc]"
| "py_split_from sep acc (c # cs) =
     (if sep \<noteq> [] \<and> prefix sep (c # cs)
      then rev acc # py_split_from sep [] (drop (length sep) (c # cs))
      else py_split_from sep (c # acc) cs)"
  by pat_completeness auto
termination
  by (relation "measure (\<lambda>(sep, acc, s). length s)") auto


section \<open>Data model of xagent_core.py\<close>

type_synonym datetime = nat

text \<open>Values stored in configuration dictionaries, with Python's truth value.\<close>

datatype pyval = PNone | PBool bool | PInt int | PStr string

fun truthy :: "pyval \<Rightarrow> bool" where
  "truthy PNone = False"
| "truthy (PBool b) = b"
| "truthy (PInt i) = (i \<noteq> 0)"
| "truthy (PStr s) = (s \<noteq> [])"

text \<open>The dataclass \<open>AgentMessage\<close>; \<open>metadata\<close> defaults to \<open>None\<close>.\<close>

record AgentMessage =
  role :: string
  content :: string
  timestamp :: datetime
  metadata :: "(string \<rightharpoonup> pyval) option"

text \<open>
  What a fallible operation raises; it returns \<open>Inl\<close> of it. \<open>Exc m\<close> is an exception whose
  class derives from \<open>Exception\<close>, with \<open>str(e) = m\<close>: \<open>except Exception\<close> catches it.
  \<open>BaseExc n\<close> is an exception whose class derives from \<open>BaseException\<close> only
  (\<open>asyncio.CancelledError\<close>, \<open>KeyboardInterrupt\<close>, \<open>SystemExit\<close>), \<open>n\<close> naming the class:
  \<open>except Exception\<close> lets it pass.
\<close>

datatype exn = Exc string | BaseExc string


text \<open>
  An element of a plan's \<open>steps\<close>: a dictionary from keys to texts, or some other object
  (given by the name of its type), on which \<open>step.get\<close> raises \<open>AttributeError\<close>.
\<close>

datatype step = StepDict "string \<rightharpoonup> string" | StepOther string

text \<open>A plan dictionary; a field is \<open>None\<close> when the key is absent.\<close>

record plan =
  steps :: "step list option"
  tools_needed :: "string list option"

text \<open>
  A tool is an arbitrary object: \<open>tool_dunder_name\<close> is its \<open>__name__\<close> attribute if it has
  one, \<open>tool_str\<close> is \<open>str(tool)\<close>, \<open>tool_description\<close> its \<open>description\<close> attribute if any.
\<close>

record tool =
  tool_dunder_name :: "string option"
  tool_str :: string
  tool_description :: "string option"

text \<open>
  The backend object held in \<open>self.xagent\<close>: all the wrapper asks of it is whether it has a
  \<open>create_plan\<close> attribute, and what that coroutine returns or raises.
\<close>

datatype xagent_obj = Backend (create_plan_attr: "(string \<Rightarrow> exn + plan) option")

record XAgentWrapper =
  agent_name :: string
  tools :: "tool list"
  memory_config :: "string \<rightharpoonup> pyval"
  conversation_history :: "AgentMessage list"
  xagent :: xagent_obj

section \<open>MockXAgent and the constructor\<close>

definition MockXAgent_create_plan :: "string \<Rightarrow> exn + plan" where
  "MockXAgent_create_plan input_text =
     Inr \<lparr>steps = Some [StepDict [''action'' \<mapsto> ''mock_analyze'', ''target'' \<mapsto> input_text],
                          StepDict [''action'' \<mapsto> ''mock_respond'', ''target'' \<mapsto> ''generated_response'']],
          tools_needed = Some [''mock_tool'']\<rparr>"

definition MockXAgent :: "(string \<rightharpoonup> pyval) \<Rightarrow> xagent_obj" where
  "MockXAgent config = Backend (Some MockXAgent_create_plan)"

text \<open>\<open>kwargs.get(key, default)\<close>.\<close>

definition dict_get :: "('k \<rightharpoonup> 'v) \<Rightarrow> 'k \<Rightarrow> 'v \<Rightarrow> 'v" where
  "dict_get d k dflt = (case d k of None \<Rightarrow> dflt | Some v \<Rightarrow> v)"

text \<open>
  \<open>_init_xagent\<close>. The library class \<open>XAgent.agent.Agent\<close> is a parameter: \<open>None\<close> when the
  import at the top of the module failed (simulation mode), otherwise its constructor,
  which may raise. The handler is \<open>except Exception\<close>: it replaces the agent by the mock
  and lets any other exception out of the constructor of the wrapper.
\<close>

definition init_xagent ::
  "((string \<rightharpoonup> pyval) \<Rightarrow> exn + xagent_obj) option \<Rightarrow> string \<Rightarrow> (string \<rightharpoonup> pyval) \<Rightarrow>
   exn + xagent_obj" where
  "init_xagent XAgent nm kwargs =
     (let config = [''agent_name'' \<mapsto> PStr nm,
                    ''max_chain_length'' \<mapsto> dict_get kwargs ''max_chain_length'' (PInt 10),
                    ''enable_reflection'' \<mapsto> dict_get kwargs ''enable_reflection'' (PBool True),
                    ''tool_server_url'' \<mapsto> dict_get kwargs ''tool_server_url'' (PStr ''http://localhost:8080'')]
                   ++ kwargs
      in case XAgent of
           None \<Rightarrow> Inr (MockXAgent config)
         | Some cls \<Rightarrow>
             (case cls config of
                Inr a \<Rightarrow> Inr a
              | Inl (Exc e) \<Rightarrow> Inr (MockXAgent [''agent_name'' \<mapsto> PStr nm])
              | Inl (BaseExc n) \<Rightarrow> Inl (BaseExc n)))"

text \<open>
  \<open>XAgentWrapper.__init__\<close>: \<open>tools or []\<close> and \<open>memory_config or {}\<close> replace \<open>None\<close> (and an
  empty value) by the empty one. The tool server and the logger are not used by the
  operations below and are left out.
\<close>

definition XAgentWrapper_init ::
  "((string \<rightharpoonup> pyval) \<Rightarrow> exn + xagent_obj) option \<Rightarrow> string \<Rightarrow> tool list option \<Rightarrow>
   (string \<rightharpoonup> pyval) option \<Rightarrow> (string \<rightharpoonup> pyval) \<Rightarrow> exn + XAgentWrapper" where
  "XAgentWrapper_init XAgent nm tls mc kwargs =
     (case init_xagent XAgent nm kwargs of
        Inl e \<Rightarrow> Inl e
      | Inr agent \<Rightarrow>
          Inr \<lparr>agent_name = nm,
               tools = (case tls of None \<Rightarrow> [] | Some ts \<Rightarrow> ts),
               memory_config = (case mc of None \<Rightarrow> Map.empty | Some m \<Rightarrow> m),
               conversation_history = [],
               xagent = agent\<rparr>)"

section \<open>The pipeline of XAgentWrapper\<close>

text \<open>\<open>tool.__name__ if hasattr(tool, '__name__') else str(tool)\<close>.\<close>

definition tool_name :: "tool \<Rightarrow> string" where
  "tool_name t = (case tool_dunder_name t of Some n \<Rightarrow> n | None \<Rightarrow> tool_str t)"

definition create_plan :: "XAgentWrapper \<Rightarrow> string \<Rightarrow> exn + plan" where
  "create_plan self input_text =
     (case create_plan_attr (xagent self) of
        Some f \<Rightarrow> f input_text
      | None \<Rightarrow>
          Inr \<lparr>steps = Some [StepDict [''action'' \<mapsto> ''analyze'', ''target'' \<mapsto> input_text],
                               StepDict [''action'' \<mapsto> ''execute'', ''target'' \<mapsto> ''planned_response''],
                               StepDict [''action'' \<mapsto> ''validate'', ''target'' \<mapsto> ''result'']],
               tools_needed = Some (map tool_name (tools self))\<rparr>)"

text \<open>The \<open>if\<close>/\<open>elif\<close> chain of \<open>_execute_step\<close> on the action and the target.\<close>

definition step_text :: "string \<Rightarrow> string \<Rightarrow> string" where
  "step_text action target =
     (if action = ''analyze'' then ''Analysis of: '' @ target
      else if action = ''execute'' then ''Executed: '' @ target
      else if action = ''validate'' then ''Validated: '' @ target
      else ''Completed '' @ action @ '' on '' @ target)"

definition execute_step :: "step \<Rightarrow> exn + string" where
  "execute_step st =
     (case st of
        StepOther ty \<Rightarrow>
          Inl (Exc ([CHR 0x27] @ ty @ [CHR 0x27] @ '' object has no attribute '' @ [CHR 0x27] @ ''get''
                    @ [CHR 0x27]))
      | StepDict d \<Rightarrow>
          Inr (step_text (dict_get d ''action'' ''unknown'') (dict_get d ''target'' [])))"

text \<open>The \<open>for\<close> loop of \<open>_synthesize_results\<close>, \<open>i\<close> counting from the given start.\<close>

fun synthesize_loop :: "nat \<Rightarrow> string list \<Rightarrow> string \<Rightarrow> string" where
  "synthesize_loop i [] synthesized = synthesized"
| "synthesize_loop i (result # rest) synthesized =
     synthesize_loop (Suc i) rest (synthesized @ str_nat i @ ''. '' @ result @ ''\<newline>'')"

definition synthesize_results :: "string list \<Rightarrow> string" where
  "synthesize_results results =
     (if results = [] then ''No results to synthesize''
      else synthesize_loop 1 results ''XAgent completed the following steps:\<newline>''
           @ ''\<newline>Task completed successfully.'')"

text \<open>The \<open>for\<close> loop of \<open>_execute_plan\<close>: the first step that raises ends it.\<close>

fun execute_steps :: "step list \<Rightarrow> string list \<Rightarrow> exn + string list" where
  "execute_steps [] results = Inr results"
| "execute_steps (st # rest) results =
     (case execute_step st of
        Inl e \<Rightarrow> Inl e
      | Inr step_result \<Rightarrow> execute_steps rest (results @ [step_result]))"

definition execute_plan :: "plan \<Rightarrow> exn + string" where
  "execute_plan p =
     (case execute_steps (case steps p of None \<Rightarrow> [] | Some ss \<Rightarrow> ss) [] of
        Inl e \<Rightarrow> Inl e
      | Inr results \<Rightarrow> Inr (synthesize_results results))"

definition reflect_on_result :: "string \<Rightarrow> string \<Rightarrow> string" where
  "reflect_on_result result original_input =
     result @ (''\<newline>[Reflection] Evaluated result for input: '' @ [CHR 0x27]
               @ take 50 original_input @ ''...'' @ [CHR 0x27])"

text \<open>\<open>self.memory_config.get("enable_reflection", True)\<close>, as a condition.\<close>

definition reflection_enabled :: "(string \<rightharpoonup> pyval) \<Rightarrow> bool" where
  "reflection_enabled mc = truthy (dict_get mc ''enable_reflection'' (PBool True))"

text \<open>The reflection phase of the workflow (the \<open>if\<close> around \<open>_reflect_on_result\<close>).\<close>

definition reflection_phase :: "(string \<rightharpoonup> pyval) \<Rightarrow> string \<Rightarrow> string \<Rightarrow> string" where
  "reflection_phase mc result input_text =
     (if reflection_enabled mc then reflect_on_result result input_text else result)"

text \<open>The \<open>try\<close> block of \<open>_execute_xagent_workflow\<close>.\<close>

definition workflow_try :: "XAgentWrapper \<Rightarrow> string \<Rightarrow> exn + string" where
  "workflow_try self input_text =
     (case create_plan self input_text of
        Inl e \<Rightarrow> Inl e
      | Inr p \<Rightarrow>
          (case execute_plan p of
             Inl e \<Rightarrow> Inl e
           | Inr result \<Rightarrow> Inr (reflection_phase (memory_config self) result input_text)))"

text \<open>
  \<open>_execute_xagent_workflow\<close>: the handler \<open>except Exception\<close> turns an \<open>Exception\<close> of the
  \<open>try\<close> block into the returned error text; any other exception leaves the method.
\<close>

definition execute_xagent_workflow :: "XAgentWrapper \<Rightarrow> string \<Rightarrow> exn + string" where
  "execute_xagent_workflow self input_text =
     (case workflow_try self input_text of
        Inr result \<Rightarrow> Inr result
      | Inl (Exc m) \<Rightarrow> Inr (''Workflow execution error: '' @ m)
      | Inl (BaseExc n) \<Rightarrow> Inl (BaseExc n))"

text \<open>
  \<open>run\<close>. The two readings of the clock are parameters. The result is what the caller
  sees, the returned text or the exception raised to it, and the wrapper after the call.
  For a text input the statements of the \<open>try\<close> block other than the workflow do not
  raise (a slice of a \<open>str\<close>, two appends), and the workflow raises no \<open>Exception\<close>, having
  caught them itself; so the handler \<open>except Exception\<close> of \<open>run\<close> is never entered and has
  no branch here. An exception that the workflow lets out is not an \<open>Exception\<close>: it passes
  the handler of \<open>run\<close> too and reaches the caller, after the user message was appended
  and before the assistant message is.
\<close>

definition run ::
  "XAgentWrapper \<Rightarrow> datetime \<Rightarrow> datetime \<Rightarrow> string \<Rightarrow> (exn + string) \<times> XAgentWrapper" where
  "run self t_user t_reply input_text =
     (let self1 = self\<lparr>conversation_history := conversation_history self @
                    [\<lparr>role = ''user'', content = input_text, timestamp = t_user, metadata = None\<rparr>]\<rparr>
      in case execute_xagent_workflow self1 input_text of
           Inl e \<Rightarrow> (Inl e, self1)
         | Inr response \<Rightarrow>
             (Inr response,
              self1\<lparr>conversation_history := conversation_history self1 @
                [\<lparr>role = ''assistant'', content = response, timestamp = t_reply, metadata = None\<rparr>]\<rparr>))"

definition get_memory :: "XAgentWrapper \<Rightarrow> AgentMessage list" where
  "get_memory self = conversation_history self"

definition clear_memory :: "XAgentWrapper \<Rightarrow> XAgentWrapper" where
  "clear_memory self = self\<lparr>conversation_history := []\<rparr>"

text \<open>
  A sequence of calls of \<open>run\<close> on one instance, each with its clock readings and input
  (the instance goes on being used after a call that raised).
\<close>

fun runs :: "XAgentWrapper \<Rightarrow> (datetime \<times> datetime \<times> string) list \<Rightarrow> XAgentWrapper" where
  "runs self [] = self"
| "runs self ((t_user, t_reply, input_text) # calls) = runs (snd (run self t_user t_reply input_text)) calls"

section \<open>ConversationalXAgent of l3agi_compatibility.py\<close>






section \<open>DialogueAgentWithTools.remove_tool of dialogue_agent_with_tools.py\<close>

text \<open>
  \<open>self.tools\<close> and \<open>self.xagent.tools\<close> are list objects that the method mutates, and the
  constructor can leave both fields pointing to one list (it hands \<open>self.tools\<close> to the
  wrapper, which keeps it when it is not empty). The lists therefore live in a store and
  the agent holds their addresses. Two tools are the same object when they are equal.
\<close>

type_synonym addr = nat

record DialogueAgentWithTools =
  da_name :: string
  da_tools :: addr
  da_xagent_tools :: addr

text \<open>
  The loop \<open>for i, tool in enumerate(self.tools)\<close> up to its \<open>if\<close>: the first index whose
  tool has the given derived name \<open>getattr(tool, '__name__', str(tool))\<close>.
\<close>

fun find_tool :: "string \<Rightarrow> tool list \<Rightarrow> nat \<Rightarrow> nat option" where
  "find_tool nm [] i = None"
| "find_tool nm (t # ts) i = (if tool_name t = nm then Some i else find_tool nm ts (Suc i))"

text \<open>
  \<open>remove_tool\<close>: \<open>pop(i)\<close> on the one list, then \<open>remove\<close> on the other, which raises
  \<open>ValueError\<close> when the tool is not in it.
\<close>

definition remove_tool ::
  "(addr \<Rightarrow> tool list) \<Rightarrow> DialogueAgentWithTools \<Rightarrow> string \<Rightarrow> exn + (bool \<times> (addr \<Rightarrow> tool list))" where
  "remove_tool store self nm =
     (case find_tool nm (store (da_tools self)) 0 of
        None \<Rightarrow> Inr (False, store)
      | Some i \<Rightarrow>
          (let ts = store (da_tools self);
               removed_tool = ts ! i;
               store1 = store(da_tools self := take i ts @ drop (Suc i) ts);
               xs = store1 (da_xagent_tools self)
           in if removed_tool \<in> set xs
              then Inr (True, store1(da_xagent_tools self := remove1 removed_tool xs))
              else Inl (Exc ''list.remove(x): x not in list'')))"

section \<open>Example instances\<close>

text \<open>
  The instance \<open>XAgentWrapper(tools=[])\<close> when the XAgent library is not installed: its
  backend is the mock.
\<close>

definition simulation_instance :: XAgentWrapper where
  "simulation_instance =
     \<lparr>agent_name = ''XAgent'', tools = [], memory_config = Map.empty, conversation_history = [],
      xagent = Backend (Some MockXAgent_create_plan)\<rparr>"

text \<open>
  An instance built with the library installed, its agent object having no \<open>create_plan\<close>;
  the tools are a function and a text.
\<close>

definition fallback_instance :: XAgentWrapper where
  "fallback_instance =
     \<lparr>agent_name = ''XAgent'',
      tools = [\<lparr>tool_dunder_name = Some ''calc'', tool_str = ''<function calc>'', tool_description = None\<rparr>,
               \<lparr>tool_dunder_name = None, tool_str = ''search'', tool_description = None\<rparr>],
      memory_config = Map.empty, conversation_history = [],
      xagent = Backend None\<rparr>"








text \<open>A dialogue agent whose two tool fields point to one list, holding one tool.\<close>

definition shared_store :: "addr \<Rightarrow> tool list" where
  "shared_store =
     (\<lambda>a. [])(0 := [\<lparr>tool_dunder_name = Some ''calc'', tool_str = ''<function calc>'', tool_description = None\<rparr>])"

definition shared_agent :: DialogueAgentWithTools where
  "shared_agent = \<lparr>da_name = ''helper'', da_tools = 0, da_xagent_tools = 0\<rparr>"

section \<open>Facts about the loops\<close>

lemma workflow_ignores_history:
  "execute_xagent_workflow (self\<lparr>conversation_history := h\<rparr>) input_text =
     execute_xagent_workflow self input_text"
  by (simp add: execute_xagent_workflow_def workflow_try_def create_plan_def
        split: option.split sum.split exn.split)

lemma run_unfold:
  "run self t_user t_reply input_text =
     (case execute_xagent_workflow self input_text of
        Inl e \<Rightarrow>
          (Inl e,
           self\<lparr>conversation_history := conversation_history self @
             [\<lparr>role = ''user'', content = input_text, timestamp = t_user, metadata = None\<rparr>]\<rparr>)
      | Inr response \<Rightarrow>
          (Inr response,
           self\<lparr>conversation_history := conversation_history self @
             [\<lparr>role = ''user'', content = input_text, timestamp = t_user, metadata = None\<rparr>,
              \<lparr>role = ''assistant'', content = response, timestamp = t_reply, metadata = None\<rparr>]\<rparr>))"
  by (simp add: run_def Let_def workflow_ignores_history split: sum.split)

lemma run_fields:
  "xagent (snd (run self t_user t_reply input_text)) = xagent self \<and>
   tools (snd (run self t_user t_reply input_text)) = tools self \<and>
   memory_config (snd (run self t_user t_reply input_text)) = memory_config self \<and>
   agent_name (snd (run self t_user t_reply input_text)) = agent_name self"
  by (simp add: run_unfold split: sum.split)

lemma runs_fields:
  "xagent (runs self calls) = xagent self \<and> tools (runs self calls) = tools self \<and>
   memory_config (runs self calls) = memory_config self \<and> agent_name (runs self calls) = agent_name self"
  by (induction self calls rule: runs.induct) (simp_all add: run_fields)




lemma upt_0_Suc: "[0..<Suc n] = 0 # map Suc [0..<n]"
  by (simp add: upt_conv_Cons map_Suc_upt del: upt_Suc)

lemma str_nat_digit: "n < 10 \<Longrightarrow> str_nat n = [digit_char n]"
  by (simp add: str_nat.simps)

lemma synthesize_loop_closed:
  "synthesize_loop i rs acc =
     acc @ concat (map (\<lambda>k. str_nat (i + k) @ ''. '' @ rs ! k @ ''\<newline>'') [0..<length rs])"
proof (induction rs arbitrary: i acc)
  case Nil
  show ?case by simp
next
  case (Cons r rs)
  show ?case
    by (simp only: synthesize_loop.simps Cons.IH length_Cons upt_0_Suc)
       (simp add: comp_def)
qed

lemma concat_map_upt_cong:
  "(\<And>k. k < n \<Longrightarrow> f k = g k) \<Longrightarrow> concat (map f [0..<n]) = concat (map g [0..<n])"
  by (rule arg_cong [where f = concat]) simp

lemma execute_steps_dicts:
  "execute_steps (map StepDict ds) acc =
     Inr (acc @ map (\<lambda>d. step_text (dict_get d ''action'' ''unknown'') (dict_get d ''target'' [])) ds)"
  by (induction ds arbitrary: acc) (simp_all add: execute_step_def)

lemma find_tool_None: "nm \<notin> set (map tool_name ts) \<Longrightarrow> find_tool nm ts i = None"
  by (induction ts arbitrary: i) auto


lemma fallback_response:
  assumes "create_plan_attr (xagent self) = None"
  shows "execute_xagent_workflow self ''Calculate 5 + 3'' =
      Inr (''XAgent completed the following steps:\<newline>1. Analysis of: Calculate 5 + 3\<newline>2. Executed: planned_response\<newline>3. Validated: result\<newline>\<newline>Task completed successfully.''
      @ (if reflection_enabled (memory_config self)
         then ''\<newline>[Reflection] Evaluated result for input: '' @ [CHR 0x27] @ ''Calculate 5 + 3...'' @ [CHR 0x27]
         else []))"
  using assms
  by (simp add: execute_xagent_workflow_def workflow_try_def create_plan_def execute_plan_def
        execute_step_def step_text_def dict_get_def synthesize_results_def str_nat_digit digit_char_def
        reflection_phase_def reflect_on_result_def)

lemma mock_response:
  assumes "create_plan self x = MockXAgent_create_plan x" and "memory_config self = Map.empty"
  shows "execute_xagent_workflow self x =
     Inr (''XAgent completed the following steps:\<newline>1. Completed mock_analyze on '' @ x
     @ ''\<newline>2. Completed mock_respond on generated_response\<newline>\<newline>Task completed successfully.''
     @ ''\<newline>[Reflection] Evaluated result for input: '' @ [CHR 0x27] @ take 50 x @ ''...'' @ [CHR 0x27])"
  using assms
  by (simp add: MockXAgent_create_plan_def
        execute_xagent_workflow_def workflow_try_def execute_plan_def
        execute_step_def step_text_def dict_get_def synthesize_results_def str_nat_digit digit_char_def
        reflection_phase_def reflect_on_result_def reflection_enabled_def)

lemma simulation_response:
  "execute_xagent_workflow simulation_instance x =
     Inr (''XAgent completed the following steps:\<newline>1. Completed mock_analyze on '' @ x
     @ ''\<newline>2. Completed mock_respond on generated_response\<newline>\<newline>Task completed successfully.''
     @ ''\<newline>[Reflection] Evaluated result for input: '' @ [CHR 0x27] @ take 50 x @ ''...'' @ [CHR 0x27])"
  by (rule mock_response) (simp_all add: simulation_instance_def create_plan_def)

subsection \<open>The example instances are what the constructor builds\<close>

lemma simulation_instance_built:
  "XAgentWrapper_init None ''XAgent'' (Some []) None Map.empty = Inr simulation_instance"
  by (simp add: XAgentWrapper_init_def init_xagent_def MockXAgent_def simulation_instance_def)

lemma fallback_instance_built:
  "XAgentWrapper_init (Some (\<lambda>config. Inr (Backend None))) ''XAgent''
     (Some [\<lparr>tool_dunder_name = Some ''calc'', tool_str = ''<function calc>'', tool_description = None\<rparr>,
            \<lparr>tool_dunder_name = None, tool_str = ''search'', tool_description = None\<rparr>])
     None Map.empty = Inr fallback_instance"
  by (simp add: XAgentWrapper_init_def init_xagent_def fallback_instance_def)


lemma constructor_lets_out:
  "XAgentWrapper_init (Some (\<lambda>config. Inl (BaseExc n))) nm tls mc kwargs = Inl (BaseExc n)"
  by (simp add: XAgentWrapper_init_def init_xagent_def)

subsection \<open>Splitting and stripping\<close>

lemma py_split_from_nonempty: "py_split_from sep acc s \<noteq> []"
  by (induction sep acc s rule: py_split_from.induct) simp_all








section \<open>run and the conversation history\<close>




section \<open>The fallback plan\<close>

text \<open>
  Claim C2. Under the default policy of \<open>_create_plan\<close>, the one used when the backend
  object offers no \<open>create_plan\<close>, the plan for an input \<open>X\<close> is exactly the three steps
  analyze/\<open>X\<close>, execute/planned_response, validate/result, annotated with the derived
  names of the configured tools, after any sequence of earlier calls of \<open>run\<close> on the
  instance.
\<close>

theorem create_plan_default_policy:
  assumes "create_plan_attr (xagent self) = None"
  shows "create_plan (runs self calls) X =
     Inr \<lparr>steps = Some [StepDict [''action'' \<mapsto> ''analyze'', ''target'' \<mapsto> X],
                          StepDict [''action'' \<mapsto> ''execute'', ''target'' \<mapsto> ''planned_response''],
                          StepDict [''action'' \<mapsto> ''validate'', ''target'' \<mapsto> ''result'']],
          tools_needed = Some (map tool_name (tools self))\<rparr>"
  using assms by (simp add: create_plan_def runs_fields)

theorem create_plan_default_policy_witness:
  "create_plan_attr (xagent fallback_instance) = None
   \<and> create_plan (runs fallback_instance [(1, 2, ''X''), (3, 4, ''Y'')]) ''X'' =
       Inr \<lparr>steps = Some [StepDict [''action'' \<mapsto> ''analyze'', ''target'' \<mapsto> ''X''],
                            StepDict [''action'' \<mapsto> ''execute'', ''target'' \<mapsto> ''planned_response''],
                            StepDict [''action'' \<mapsto> ''validate'', ''target'' \<mapsto> ''result'']],
            tools_needed = Some [''calc'', ''search'']\<rparr>"
  using create_plan_default_policy [of fallback_instance "[(1, 2, ''X''), (3, 4, ''Y'')]" "''X''"]
  by (simp add: fallback_instance_def tool_name_def)

section \<open>The example run\<close>

text \<open>
  Claim C3, amended. On an instance whose backend object has no \<open>create_plan\<close>, whatever
  its tools (in particular with none), \<open>run("Calculate 5 + 3")\<close> returns a text: the header
  line, the three numbered lines \<open>Analysis of: Calculate 5 + 3\<close>, \<open>Executed: planned_response\<close>
  and \<open>Validated: result\<close>, and the sentence \<open>Task completed successfully.\<close>, followed by
  the reflection suffix when reflection is enabled and by nothing otherwise.
\<close>

theorem run_fallback_example:
  assumes "create_plan_attr (xagent self) = None"
  shows "\<exists>text. fst (run self t_user t_reply ''Calculate 5 + 3'') = Inr text
    \<and> text =
      ''XAgent completed the following steps:\<newline>1. Analysis of: Calculate 5 + 3\<newline>2. Executed: planned_response\<newline>3. Validated: result\<newline>\<newline>Task completed successfully.''
      @ (if reflection_enabled (memory_config self)
         then ''\<newline>[Reflection] Evaluated result for input: '' @ [CHR 0x27] @ ''Calculate 5 + 3...'' @ [CHR 0x27]
         else [])
    \<and> sublist ''Analysis of: Calculate 5 + 3'' text
    \<and> sublist ''Executed: planned_response'' text
    \<and> sublist ''Validated: result'' text"
proof -
  have r: "fst (run self t_user t_reply ''Calculate 5 + 3'') = execute_xagent_workflow self ''Calculate 5 + 3''"
    by (simp add: run_unfold fallback_response [OF assms])
  show ?thesis
    unfolding r fallback_response [OF assms]
    by (simp add: sublist_code)
qed

theorem run_fallback_example_witness:
  "create_plan_attr (xagent fallback_instance) = None
   \<and> fst (run fallback_instance 1 2 ''Calculate 5 + 3'') =
      Inr (''XAgent completed the following steps:\<newline>1. Analysis of: Calculate 5 + 3\<newline>2. Executed: planned_response\<newline>3. Validated: result\<newline>\<newline>Task completed successfully.\<newline>[Reflection] Evaluated result for input: ''
      @ [CHR 0x27] @ ''Calculate 5 + 3...'' @ [CHR 0x27])"
  using run_fallback_example [of fallback_instance 1 2]
  by (auto simp add: fallback_instance_def reflection_enabled_def dict_get_def)

text \<open>
  The claim as written covers every instance with zero tools. The instance the
  constructor builds in simulation mode holds a \<open>MockXAgent\<close>, whose \<open>create_plan\<close> is used
  instead of the default plan, and its response has none of the three lines.
\<close>

theorem run_simulation_counterexample:
  "XAgentWrapper_init None ''XAgent'' (Some []) None Map.empty = Inr simulation_instance
   \<and> fst (run simulation_instance 1 2 ''Calculate 5 + 3'') =
      Inr (''XAgent completed the following steps:\<newline>1. Completed mock_analyze on Calculate 5 + 3\<newline>2. Completed mock_respond on generated_response\<newline>\<newline>Task completed successfully.\<newline>[Reflection] Evaluated result for input: ''
           @ [CHR 0x27] @ ''Calculate 5 + 3...'' @ [CHR 0x27])
   \<and> \<not> sublist ''Analysis of: Calculate 5 + 3''
        (''XAgent completed the following steps:\<newline>1. Completed mock_analyze on Calculate 5 + 3\<newline>2. Completed mock_respond on generated_response\<newline>\<newline>Task completed successfully.\<newline>[Reflection] Evaluated result for input: ''
         @ [CHR 0x27] @ ''Calculate 5 + 3...'' @ [CHR 0x27])
   \<and> \<not> sublist ''Executed: planned_response''
        (''XAgent completed the following steps:\<newline>1. Completed mock_analyze on Calculate 5 + 3\<newline>2. Completed mock_respond on generated_response\<newline>\<newline>Task completed successfully.\<newline>[Reflection] Evaluated result for input: ''
         @ [CHR 0x27] @ ''Calculate 5 + 3...'' @ [CHR 0x27])"
  by (simp add: simulation_instance_built run_unfold simulation_response sublist_code)

section \<open>Executing a plan\<close>

text \<open>
  Claim C4, amended. For every plan with at least one step (each step a dictionary),
  \<open>_execute_plan\<close> returns the header line, then one line per step in the order of the
  steps, line \<open>k\<close> (counting from 0) being the number \<open>k + 1\<close>, a dot, a space and the text
  of step \<open>k\<close>, then the completion sentence. The text of a step follows the fixed rule:
  analyze, execute and validate have their own prefixes and any other action gives
  \<open>Completed action on target\<close>. Rearranging the steps by a list of positions rearranges
  the step results by the same list.
\<close>

theorem execute_plan_numbered:
  assumes "steps p = Some (map StepDict ds)" and "ds \<noteq> []"
  shows "execute_plan p =
           Inr (''XAgent completed the following steps:\<newline>''
                @ concat (map (\<lambda>k. str_nat (k + 1) @ ''. ''
                                   @ step_text (dict_get (ds ! k) ''action'' ''unknown'')
                                               (dict_get (ds ! k) ''target'' [])
                                   @ ''\<newline>'') [0..<length ds])
                @ ''\<newline>Task completed successfully.'')
         \<and> step_text ''analyze'' target = ''Analysis of: '' @ target
         \<and> step_text ''execute'' target = ''Executed: '' @ target
         \<and> step_text ''validate'' target = ''Validated: '' @ target
         \<and> (action \<notin> {''analyze'', ''execute'', ''validate''} \<longrightarrow>
               step_text action target = ''Completed '' @ action @ '' on '' @ target)
         \<and> ((\<forall>k \<in> set perm. k < length ds) \<longrightarrow>
               execute_steps (map StepDict (map ((!) ds) perm)) [] =
                 Inr (map ((!) (map (\<lambda>d. step_text (dict_get d ''action'' ''unknown'')
                                                    (dict_get d ''target'' [])) ds)) perm))"
proof -
  let ?line = "\<lambda>d. step_text (dict_get d ''action'' ''unknown'') (dict_get d ''target'' [])"
  have "execute_plan p = Inr (synthesize_results (map ?line ds))"
    using assms(1) by (simp add: execute_plan_def execute_steps_dicts)
  moreover have "synthesize_results (map ?line ds) =
      ''XAgent completed the following steps:\<newline>''
      @ concat (map (\<lambda>k. str_nat (k + 1) @ ''. '' @ ?line (ds ! k) @ ''\<newline>'') [0..<length ds])
      @ ''\<newline>Task completed successfully.''"
  proof -
    have "concat (map (\<lambda>k. str_nat (1 + k) @ ''. '' @ map ?line ds ! k @ ''\<newline>'') [0..<length ds]) =
          concat (map (\<lambda>k. str_nat (k + 1) @ ''. '' @ ?line (ds ! k) @ ''\<newline>'') [0..<length ds])"
      by (rule concat_map_upt_cong) simp
    then show ?thesis
      using assms(2) by (simp add: synthesize_results_def synthesize_loop_closed)
  qed
  moreover have "(\<forall>k \<in> set perm. k < length ds) \<longrightarrow>
      execute_steps (map StepDict (map ((!) ds) perm)) [] = Inr (map ((!) (map ?line ds)) perm)"
  proof
    assume "\<forall>k \<in> set perm. k < length ds"
    then have "map ?line (map ((!) ds) perm) = map ((!) (map ?line ds)) perm"
      by (induction perm) simp_all
    then show "execute_steps (map StepDict (map ((!) ds) perm)) [] = Inr (map ((!) (map ?line ds)) perm)"
      unfolding execute_steps_dicts by simp
  qed
  ultimately show ?thesis
    by (simp add: step_text_def)
qed

theorem execute_plan_numbered_witness:
  "execute_plan \<lparr>steps = Some [StepDict [''action'' \<mapsto> ''validate'', ''target'' \<mapsto> ''b''],
                                StepDict [''action'' \<mapsto> ''deploy'', ''target'' \<mapsto> ''a'']],
                 tools_needed = None\<rparr> =
     Inr ''XAgent completed the following steps:\<newline>1. Validated: b\<newline>2. Completed deploy on a\<newline>\<newline>Task completed successfully.''"
  using execute_plan_numbered
    [of "\<lparr>steps = Some [StepDict [''action'' \<mapsto> ''validate'', ''target'' \<mapsto> ''b''],
                         StepDict [''action'' \<mapsto> ''deploy'', ''target'' \<mapsto> ''a'']],
          tools_needed = None\<rparr>"
        "[[''action'' \<mapsto> ''validate'', ''target'' \<mapsto> ''b''], [''action'' \<mapsto> ''deploy'', ''target'' \<mapsto> ''a'']]"
        "''x''" "''deploy''" "[1, 0]"]
  by (simp add: upt_0_Suc str_nat_digit digit_char_def step_text_def dict_get_def del: upt_Suc)

text \<open>
  The claim as written covers every plan; a plan without steps gets neither the header
  nor the completion sentence.
\<close>

theorem execute_plan_completion_counterexample:
  "execute_plan \<lparr>steps = Some [], tools_needed = Some []\<rparr> = Inr ''No results to synthesize''
   \<and> \<not> suffix ''Task completed successfully.'' ''No results to synthesize''"
  by (simp add: execute_plan_def synthesize_results_def suffix_def)

text \<open>
  Claim C9. For a plan whose list of steps is empty (or that has no \<open>steps\<close> key),
  \<open>_execute_plan\<close> returns the fixed text \<open>No results to synthesize\<close> and nothing else.
\<close>

theorem execute_plan_empty:
  "steps p = None \<or> steps p = Some [] \<Longrightarrow> execute_plan p = Inr ''No results to synthesize''"
  by (auto simp: execute_plan_def synthesize_results_def)

theorem execute_plan_empty_witness:
  "steps \<lparr>steps = Some [], tools_needed = Some [''mock_tool'']\<rparr> = Some []
   \<and> execute_plan \<lparr>steps = Some [], tools_needed = Some [''mock_tool'']\<rparr> = Inr ''No results to synthesize''
   \<and> execute_plan \<lparr>steps = None, tools_needed = None\<rparr> = Inr ''No results to synthesize''"
  using execute_plan_empty [of "\<lparr>steps = Some [], tools_needed = Some [''mock_tool'']\<rparr>"]
        execute_plan_empty [of "\<lparr>steps = None, tools_needed = None\<rparr>"]
  by simp

section \<open>Reflection\<close>

text \<open>
  Claim C5. When reflection is disabled the reflection phase returns the result
  unchanged. When it is enabled, which is the case when the memory configuration has no
  \<open>enable_reflection\<close> entry, the phase appends the fixed suffix quoting the first 50
  characters of the original input, so the result is a strict prefix of the reflected
  text.
\<close>

theorem reflection_appends:
  "(\<not> reflection_enabled mc \<longrightarrow> reflection_phase mc result original_input = result) \<and>
   (reflection_enabled mc \<longrightarrow>
      reflection_phase mc result original_input =
        result @ ''\<newline>[Reflection] Evaluated result for input: '' @ [CHR 0x27]
               @ take 50 original_input @ ''...'' @ [CHR 0x27]
      \<and> strict_prefix result (reflection_phase mc result original_input)) \<and>
   (mc ''enable_reflection'' = None \<longrightarrow> reflection_enabled mc)"
  by (simp add: reflection_phase_def reflect_on_result_def reflection_enabled_def dict_get_def
        strict_prefix_def)

theorem reflection_appends_witness:
  "\<not> reflection_enabled [''enable_reflection'' \<mapsto> PBool False]
   \<and> reflection_phase [''enable_reflection'' \<mapsto> PBool False] ''done'' ''hello'' = ''done''
   \<and> reflection_enabled [''enabled'' \<mapsto> PBool True]
   \<and> strict_prefix ''done'' (reflection_phase [''enabled'' \<mapsto> PBool True] ''done'' ''hello'')
   \<and> reflection_phase [''enabled'' \<mapsto> PBool True] ''done'' ''hello'' =
       ''done\<newline>[Reflection] Evaluated result for input: '' @ [CHR 0x27] @ ''hello...'' @ [CHR 0x27]"
  using reflection_appends [of "[''enable_reflection'' \<mapsto> PBool False]" "''done''" "''hello''"]
        reflection_appends [of "[''enabled'' \<mapsto> PBool True]" "''done''" "''hello''"]
  by (simp add: reflection_enabled_def dict_get_def)

section \<open>Memory\<close>

text \<open>
  Claim C6. After \<open>clear_memory\<close>, \<open>get_memory\<close> returns the empty list, whatever the
  history was, in particular after any sequence of calls of \<open>run\<close>.
\<close>

theorem clear_then_get_memory_empty:
  "get_memory (clear_memory self) = [] \<and> get_memory (clear_memory (runs self calls)) = []"
  by (simp add: get_memory_def clear_memory_def)

theorem clear_then_get_memory_empty_witness:
  "get_memory (runs simulation_instance [(1, 2, ''hi''), (3, 4, ''again'')]) \<noteq> []
   \<and> get_memory (clear_memory (runs simulation_instance [(1, 2, ''hi''), (3, 4, ''again'')])) = []"
  using clear_then_get_memory_empty [of simulation_instance "[(1, 2, ''hi''), (3, 4, ''again'')]"]
  by (simp add: get_memory_def run_unfold split: sum.split)

section \<open>Removing a tool that is not there\<close>

text \<open>
  Claim C8. When the given name is not the derived name of any tool in \<open>self.tools\<close>,
  \<open>remove_tool\<close> returns \<open>False\<close> without raising and leaves the store, hence both tool
  lists and their lengths, as they were.
\<close>

theorem remove_tool_absent:
  assumes "nm \<notin> set (map tool_name (store (da_tools self)))"
  shows "remove_tool store self nm = Inr (False, store)"
  using assms by (simp add: remove_tool_def find_tool_None)

theorem remove_tool_absent_witness:
  "''search'' \<notin> set (map tool_name (shared_store (da_tools shared_agent)))
   \<and> remove_tool shared_store shared_agent ''search'' = Inr (False, shared_store)"
  using remove_tool_absent [of "''search''" shared_store shared_agent]
  by (simp add: shared_store_def shared_agent_def tool_name_def)

section \<open>Exceptions inside the workflow\<close>




section \<open>The conversational adapter\<close>



end
